theory Spec2Isabelle
  imports Main "HOL-Library.Sublist"
begin

section \<open>JavaScript values, objects and strings\<close>

text \<open>
  The handlers read properties of thrown error objects and of returned objects by name,
  and a property that an object does not have reads as \<open>undefined\<close>. Objects whose
  properties are read by name are therefore association lists, and a read is a lookup:
  \<open>None\<close> is \<open>undefined\<close>. Request fields, cookies and the stored refresh token are
  \<open>string option\<close>, \<open>None\<close> standing for an absent (\<open>undefined\<close> or \<open>null\<close>) value.
  The handlers themselves only compare strings, test them for emptiness and remove the
  pattern \<open>Bearer \<close>; trimming and case folding are left to the runtime.
\<close>

datatype jsval = Num nat | Str string

type_synonym jsobj = "(string \<times> jsval) list"

definition get_prop :: "jsobj \<Rightarrow> string \<Rightarrow> jsval option" where
  "get_prop obj k = map_of obj k"

text \<open>\<open>obj?.k\<close> on a value that may be absent.\<close>

definition opt_prop :: "jsobj option \<Rightarrow> string \<Rightarrow> jsval option" where
  "opt_prop obj k = (case obj of None \<Rightarrow> None | Some ob \<Rightarrow> get_prop ob k)"

fun truthy :: "jsval option \<Rightarrow> bool" where
  "truthy None = False"
| "truthy (Some (Num n)) = (n \<noteq> 0)"
| "truthy (Some (Str s)) = (s \<noteq> [])"

text \<open>\<open>a || d\<close> where \<open>d\<close> is a constant of the source.\<close>

definition or_default :: "jsval option \<Rightarrow> jsval \<Rightarrow> jsval" where
  "or_default a d = (case a of None \<Rightarrow> d | Some v \<Rightarrow> if truthy (Some v) then v else d)"

text \<open>Truthiness and \<open>||\<close> on values that are strings when present.\<close>

fun truthy_s :: "string option \<Rightarrow> bool" where
  "truthy_s None = False"
| "truthy_s (Some s) = (s \<noteq> [])"

definition or_s :: "string option \<Rightarrow> string option \<Rightarrow> string option" where
  "or_s a b = (if truthy_s a then a else b)"

text \<open>\<open>s.replace(pat, "")\<close> with a string pattern: the first occurrence is removed.\<close>

fun replace_first :: "string \<Rightarrow> string \<Rightarrow> string" where
  "replace_first pat [] = []"
| "replace_first pat (c # cs) =
     (if prefix pat (c # cs) then drop (length pat) (c # cs) else c # replace_first pat cs)"

section \<open>ApiError and ApiResponse (utils/ApiError.js, utils/ApiResponse.js)\<close>

text \<open>
  The constructor of \<open>ApiError\<close> sets \<open>statusCode\<close>, \<open>message\<close> and \<open>errors\<close> (and the
  stack). \<open>errors\<close> is never read by the handlers below and is left out of the object.
\<close>

definition ApiError :: "jsval \<Rightarrow> jsval \<Rightarrow> jsobj" where
  "ApiError statusCode message = [(''statusCode'', statusCode), (''message'', message)]"

text \<open>An error thrown by a library or by the runtime: a name and a message.\<close>

definition LibError :: "string \<Rightarrow> string \<Rightarrow> jsobj" where
  "LibError name message = [(''name'', Str name), (''message'', Str message)]"

definition TypeError :: jsobj where
  "TypeError = LibError ''TypeError'' ''Cannot read properties of undefined''"

section \<open>The user record and the store\<close>

record profile =
  p_id :: string
  p_username :: string
  p_email :: string
  p_fullName :: string
  p_avatar :: string
  p_coverImage :: string

record user =
  user_id :: string
  username :: string
  email :: string
  fullName :: string
  avatar :: string
  coverImage :: string
  password :: string
  refreshToken :: "string option"

text \<open>\<open>.select("-password -refreshToken")\<close>\<close>

definition select_profile :: "user \<Rightarrow> profile" where
  "select_profile u =
     \<lparr>p_id = user_id u, p_username = username u, p_email = email u, p_fullName = fullName u,
      p_avatar = avatar u, p_coverImage = coverImage u\<rparr>"

text \<open>
  \<open>User.findById(id)\<close>: the document whose \<open>_id\<close> is the given string; an absent or
  non-string id finds nothing.
\<close>

fun findById :: "user list \<Rightarrow> jsval option \<Rightarrow> user option" where
  "findById db (Some (Str i)) = find (\<lambda>u. user_id u = i) db"
| "findById db _ = None"

text \<open>
  Modelled from the spec: the User schema (models/user.model.js) is not among the sources,
  and it decides how \<open>User.findOne({$or: [{username}, {email}]})\<close> compares a handle:
  the object-document mapper casts the values of a query through the setters the schema
  declares for the field before it compares them. The spec makes the handle a unique,
  case-insensitive comparison key and the address a unique key: a handle matches when
  the two are equal under the runtime's \<open>toLowerCase\<close> (the argument \<open>lc\<close>), an
  address when it is equal, and an absent field matches no stored user.
\<close>

definition matches_identity ::
  "(string \<Rightarrow> string) \<Rightarrow> string option \<Rightarrow> string option \<Rightarrow> user \<Rightarrow> bool" where
  "matches_identity lc uname mail u =
     ((case uname of None \<Rightarrow> False | Some h \<Rightarrow> lc (username u) = lc h)
      \<or> (case mail of None \<Rightarrow> False | Some a \<Rightarrow> email u = a))"

definition findOne_or ::
  "(string \<Rightarrow> string) \<Rightarrow> user list \<Rightarrow> string option \<Rightarrow> string option \<Rightarrow> user option" where
  "findOne_or lc db uname mail = find (matches_identity lc uname mail) db"

text \<open>\<open>user.save()\<close>: the document replaces the stored one with the same \<open>_id\<close>.\<close>

fun save :: "user list \<Rightarrow> user \<Rightarrow> user list" where
  "save [] u = []"
| "save (v # vs) u = (if user_id v = user_id u then u # vs else v # save vs u)"

text \<open>\<open>User.findByIdAndUpdate(id, {$set: ...})\<close> with the update as a function.\<close>

definition findByIdAndUpdate :: "user list \<Rightarrow> string \<Rightarrow> (user \<Rightarrow> user) \<Rightarrow> user list" where
  "findByIdAndUpdate db i upd =
     (case findById db (Some (Str i)) of None \<Rightarrow> db | Some u \<Rightarrow> save db (upd u))"

section \<open>What the handlers take from their environment\<close>

text \<open>
  \<open>jwt.verify\<close> either throws an error of the library (a name and a message) or returns
  the decoded payload; a falsy return value is \<open>Returns None\<close>.
\<close>

datatype verify_result = Throws string string | Returns "jsobj option"

text \<open>What \<open>cloudinary.uploader.upload\<close> does: it throws, or returns a response with a url.\<close>

datatype upload_outcome = UploadThrows | UploadResponse "string option"

text \<open>
  The token library, the environment's signing keys, the methods of the user model
  (token generation, password comparison, creation under the schema) and the media host
  are parameters of the handlers. \<open>presave_password\<close> is what saving a document makes
  of a newly assigned password: the schema's validation rejects it (\<open>Inl\<close>) or the
  pre-save hook stores its hash (\<open>Inr\<close>).

  \<open>String.prototype.trim\<close> and \<open>String.prototype.toLowerCase\<close> are built-ins of the
  runtime: what counts as white space and how a letter is folded is decided by the
  runtime's Unicode tables, over all of Unicode. They are parameters too, so that
  nothing below depends on which characters they strip or fold.
\<close>

record env =
  jwt_verify :: "string \<Rightarrow> string \<Rightarrow> verify_result"
  ACCESS_TOKEN_SECRET :: string
  REFRESH_TOKEN_SECRET :: string
  generateAccessToken :: "user \<Rightarrow> string"
  generateRefreshToken :: "user \<Rightarrow> string"
  isPasswordCorrect :: "user \<Rightarrow> string option \<Rightarrow> bool"
  presave_password :: "string option \<Rightarrow> jsobj + string"
  cloudinary_upload :: "string \<Rightarrow> upload_outcome"
  User_create :: "user list \<Rightarrow> (string \<times> string option) list \<Rightarrow> jsobj + user"
  trim :: "string \<Rightarrow> string"
  toLowerCase :: "string \<Rightarrow> string"

section \<open>Requests and responses\<close>

record request =
  cookies :: "(string \<times> string) list"
  headers :: "(string \<times> string) list"
  body :: "(string \<times> string) list"
  files :: "(string \<times> string list) list option"
  req_user :: "profile option"

datatype field = VUser "profile option" | VStr "string option"

datatype data = DNull | DUser "profile option" | DObj "(string \<times> field) list"

record ApiResponse =
  statusCode :: nat
  data :: data
  message :: string
  success :: bool

definition new_ApiResponse :: "nat \<Rightarrow> data \<Rightarrow> string \<Rightarrow> ApiResponse" where
  "new_ApiResponse c d m = \<lparr>statusCode = c, data = d, message = m, success = (c < 400)\<rparr>"

text \<open>
  A response: the status, the cookies set with the value each was given (\<open>None\<close> when the
  handler passed \<open>undefined\<close>), the cookies cleared, and the JSON body.
\<close>

record response =
  res_status :: nat
  res_cookies :: "(string \<times> string option) list"
  res_cleared :: "string list"
  res_json :: ApiResponse

section \<open>The access-verification gate (middlewares/auth.middleware.js)\<close>

definition VerifyJWT_try :: "env \<Rightarrow> user list \<Rightarrow> request \<Rightarrow> jsobj + request" where
  "VerifyJWT_try e db req =
     (let token = or_s (map_of (cookies req) ''accessToken'')
                       (map_option (replace_first ''Bearer '') (map_of (headers req) ''Authorization''))
      in case token of
           None \<Rightarrow> Inl (ApiError (Num 401) (Str ''UNAUTHORIZED''))
         | Some t \<Rightarrow>
             if t = [] then Inl (ApiError (Num 401) (Str ''UNAUTHORIZED''))
             else (case jwt_verify e t (ACCESS_TOKEN_SECRET e) of
                     Throws name msg \<Rightarrow> Inl (LibError name msg)
                   | Returns decodedtoken \<Rightarrow>
                       (case findById db (opt_prop decodedtoken ''_id'') of
                          None \<Rightarrow> Inl (ApiError (Num 404) (Str ''INVALID ACCESS TOKEN''))
                        | Some u \<Rightarrow> Inr (req\<lparr>req_user := Some (select_profile u)\<rparr>))))"

text \<open>
  The \<open>catch\<close> of the gate rethrows an \<open>ApiError\<close> built from the \<open>status\<close> and the
  \<open>message\<close> of whatever was thrown in the \<open>try\<close>.
\<close>

definition VerifyJWT :: "env \<Rightarrow> user list \<Rightarrow> request \<Rightarrow> jsobj + request" where
  "VerifyJWT e db req =
     (case VerifyJWT_try e db req of
        Inl error \<Rightarrow>
          Inl (ApiError (or_default (get_prop error ''status'') (Num 500))
                        (or_default (get_prop error ''message'') (Str ''INTERNAL SERVER ERROR'')))
      | Inr req' \<Rightarrow> Inr req')"

section \<open>Token issuing (controllers/user.controller.js)\<close>

text \<open>
  The object returned has the properties \<open>accessToken\<close> and \<open>refreshToken\<close>; callers
  destructure it by property name. The save changes the refresh token only.
\<close>

definition generateAccessAndRefreshTokens_try ::
  "env \<Rightarrow> user list \<Rightarrow> jsval option \<Rightarrow> (jsobj + (string \<times> string) list) \<times> user list" where
  "generateAccessAndRefreshTokens_try e db userId =
     (case findById db userId of
        None \<Rightarrow>
          (Inl (ApiError (Num 404)
                  (Str ''USER NOT FOUND FROM generateAccessAndRefreshTokens FUNCTION'')), db)
      | Some u \<Rightarrow>
          (let accessTok = generateAccessToken e u;
               refreshTok = generateRefreshToken e u;
               u' = u\<lparr>refreshToken := Some refreshTok\<rparr>
           in (Inr [(''accessToken'', accessTok), (''refreshToken'', refreshTok)], save db u')))"

definition generateAccessAndRefreshTokens ::
  "env \<Rightarrow> user list \<Rightarrow> jsval option \<Rightarrow> (jsobj + (string \<times> string) list) \<times> user list" where
  "generateAccessAndRefreshTokens e db userId =
     (case generateAccessAndRefreshTokens_try e db userId of
        (Inl error, db') \<Rightarrow>
          (Inl (ApiError (Num 500)
                  (Str ''SOMETHING WENT WRONG WHILE GENERATING ACCESS AND REFRESH TOKENS'')), db')
      | (Inr tokens, db') \<Rightarrow> (Inr tokens, db'))"

section \<open>Login\<close>

definition loginUser :: "env \<Rightarrow> user list \<Rightarrow> request \<Rightarrow> (jsobj + response) \<times> user list" where
  "loginUser e db req =
     (let uname = map_of (body req) ''username'';
          mail = map_of (body req) ''email'';
          pw = map_of (body req) ''password''
      in if \<not> truthy_s uname \<and> \<not> truthy_s mail
         then (Inl (ApiError (Num 400) (Str ''USERNAME OR EMAIL IS REQUIRED'')), db)
         else (case findOne_or (toLowerCase e) db uname mail of
                 None \<Rightarrow> (Inl (ApiError (Num 404) (Str ''USER NOT FOUND'')), db)
               | Some u \<Rightarrow>
                   if \<not> isPasswordCorrect e u pw
                   then (Inl (ApiError (Num 400) (Str ''INCORRECT PASSWORD'')), db)
                   else (case generateAccessAndRefreshTokens e db (Some (Str (user_id u))) of
                           (Inl error, db') \<Rightarrow> (Inl error, db')
                         | (Inr tokens, db') \<Rightarrow>
                             (let accessTok = map_of tokens ''accessToken'';
                                  refreshTok = map_of tokens ''refreshToken'';
                                  loggedInUser = map_option select_profile
                                                   (findById db' (Some (Str (user_id u))))
                              in (Inr \<lparr>res_status = 200,
                                       res_cookies = [(''accessToken'', accessTok),
                                                      (''refreshToken'', refreshTok)],
                                       res_cleared = [],
                                       res_json = new_ApiResponse 200
                                         (DObj [(''user'', VUser loggedInUser),
                                                (''accessToken'', VStr accessTok),
                                                (''refreshToken'', VStr refreshTok)])
                                         ''USER LOGGED IN SUCCESSFULLY''\<rparr>, db')))))"

section \<open>Logout\<close>

text \<open>The handler reads \<open>req.user._id\<close>: without a bound user the read throws.\<close>

definition logOutUser :: "env \<Rightarrow> user list \<Rightarrow> request \<Rightarrow> (jsobj + response) \<times> user list" where
  "logOutUser e db req =
     (case req_user req of
        None \<Rightarrow> (Inl TypeError, db)
      | Some p \<Rightarrow>
          (Inr \<lparr>res_status = 200, res_cookies = [],
                res_cleared = [''accessToken'', ''refreshToken''],
                res_json = new_ApiResponse 200 DNull ''USER LOGGED OUT SUCCESSFULLY''\<rparr>,
           findByIdAndUpdate db (p_id p) (\<lambda>u. u\<lparr>refreshToken := Some []\<rparr>)))"

section \<open>Refresh\<close>

text \<open>The body of the \<open>try\<close>, for a token that is present.\<close>

definition refreshAccessToken_try ::
  "env \<Rightarrow> user list \<Rightarrow> string \<Rightarrow> (jsobj + response) \<times> user list" where
  "refreshAccessToken_try e db incomingRefreshToken =
     (case jwt_verify e incomingRefreshToken (REFRESH_TOKEN_SECRET e) of
        Throws name msg \<Rightarrow> (Inl (LibError name msg), db)
      | Returns None \<Rightarrow>
          (Inl (ApiError (Num 401) (Str ''Invalid refresh token. Please log in again.'')), db)
      | Returns (Some decodedToken) \<Rightarrow>
          (case findById db (get_prop decodedToken ''_id'') of
             None \<Rightarrow> (Inl (ApiError (Num 404) (Str ''User not found. Please log in again.'')), db)
           | Some u \<Rightarrow>
               if refreshToken u \<noteq> Some incomingRefreshToken
               then (Inl (ApiError (Num 403)
                            (Str ''Refresh token mismatch. Please log in again.'')), db)
               else (case generateAccessAndRefreshTokens e db (Some (Str (user_id u))) of
                       (Inl error, db') \<Rightarrow> (Inl error, db')
                     | (Inr tokens, db') \<Rightarrow>
                         (let accessTok = map_of tokens ''accessToken'';
                              newRefreshToken = map_of tokens ''newRefreshToken''
                          in (Inr \<lparr>res_status = 200,
                                   res_cookies = [(''accessToken'', accessTok),
                                                  (''refreshToken'', newRefreshToken)],
                                   res_cleared = [],
                                   res_json = new_ApiResponse 200
                                     (DObj [(''accessToken'', VStr accessTok),
                                            (''refreshToken'', VStr newRefreshToken)])
                                     ''Access token successfully refreshed.''\<rparr>, db')))))"

definition refreshAccessToken ::
  "env \<Rightarrow> user list \<Rightarrow> request \<Rightarrow> (jsobj + response) \<times> user list" where
  "refreshAccessToken e db req =
     (let incomingRefreshToken = or_s (map_of (cookies req) ''refreshToken'')
                                      (map_of (body req) ''refreshToken'')
      in case incomingRefreshToken of
           None \<Rightarrow>
             (Inl (ApiError (Num 401) (Str ''Refresh token missing. Please log in again.'')), db)
         | Some t \<Rightarrow>
             if t = []
             then (Inl (ApiError (Num 401)
                          (Str ''Refresh token missing. Please log in again.'')), db)
             else (case refreshAccessToken_try e db t of
                     (Inl error, db') \<Rightarrow>
                       (Inl (ApiError (Num 401)
                               (Str ''Token refresh failed. Please try logging in again.'')), db')
                   | (Inr res, db') \<Rightarrow> (Inr res, db')))"

section \<open>Secret change\<close>

text \<open>
  \<open>req.user._id\<close> throws without a bound user, and \<open>user.isPasswordCorrect\<close> throws when
  the lookup found nothing.
\<close>

definition changeCurrentpassword ::
  "env \<Rightarrow> user list \<Rightarrow> request \<Rightarrow> (jsobj + response) \<times> user list" where
  "changeCurrentpassword e db req =
     (let currentPassword = map_of (body req) ''currentPassword'';
          newPassword = map_of (body req) ''newPassword''
      in case req_user req of
           None \<Rightarrow> (Inl TypeError, db)
         | Some p \<Rightarrow>
             (case findById db (Some (Str (p_id p))) of
                None \<Rightarrow> (Inl TypeError, db)
              | Some u \<Rightarrow>
                  if \<not> isPasswordCorrect e u currentPassword
                  then (Inl (ApiError (Num 400) (Str ''INCORRECT PASSWORD'')), db)
                  else (case presave_password e newPassword of
                          Inl error \<Rightarrow> (Inl error, db)
                        | Inr hashed \<Rightarrow>
                            (Inr \<lparr>res_status = 200, res_cookies = [], res_cleared = [],
                                  res_json = new_ApiResponse 200 DNull
                                    ''PASSWORD CHANGED SUCCESSFULLY''\<rparr>,
                             save db (u\<lparr>password := hashed\<rparr>)))))"

section \<open>Registration\<close>

text \<open>
  \<open>uploadOnCloudinary\<close> (utils/cloudinary.js) returns an \<open>ApiError\<close> object, without
  throwing it, when it is given no path; it throws when the upload throws.
\<close>

datatype upload_ret = RetError jsobj | RetResponse "string option"

definition uploadOnCloudinary :: "env \<Rightarrow> string option \<Rightarrow> jsobj + upload_ret" where
  "uploadOnCloudinary e localFilePath =
     (case localFilePath of
        None \<Rightarrow> Inr (RetError (ApiError (Num 401) (Str ''localfilePath not found'')))
      | Some path \<Rightarrow>
          if path = [] then Inr (RetError (ApiError (Num 401) (Str ''localfilePath not found'')))
          else (case cloudinary_upload e path of
                  UploadThrows \<Rightarrow> Inl (ApiError (Num 500) (Str ''cloudinary error''))
                | UploadResponse u \<Rightarrow> Inr (RetResponse u)))"

fun url :: "upload_ret \<Rightarrow> string option" where
  "url (RetResponse u) = u"
| "url (RetError ob) = (case get_prop ob ''url'' of Some (Str s) \<Rightarrow> Some s | _ \<Rightarrow> None)"

text \<open>\<open>req.files?.avatar[0]?.path\<close>: indexing a missing \<open>avatar\<close> throws.\<close>

definition avatarLocalPath :: "request \<Rightarrow> jsobj + string option" where
  "avatarLocalPath req =
     (case files req of
        None \<Rightarrow> Inr None
      | Some fs \<Rightarrow>
          (case map_of fs ''avatar'' of
             None \<Rightarrow> Inl TypeError
           | Some [] \<Rightarrow> Inr None
           | Some (path # _) \<Rightarrow> Inr (Some path)))"

text \<open>
  \<open>req.files && Array.isArray(req.files.coverImage) && req.files.coverImage[0].path\<close>:
  an empty array throws at \<open>.path\<close>.
\<close>

definition coverImageLocalPath :: "request \<Rightarrow> jsobj + string option" where
  "coverImageLocalPath req =
     (case files req of
        None \<Rightarrow> Inr None
      | Some fs \<Rightarrow>
          (case map_of fs ''coverImage'' of
             None \<Rightarrow> Inr None
           | Some [] \<Rightarrow> Inl TypeError
           | Some (path # _) \<Rightarrow> Inr (if path = [] then None else Some path)))"

text \<open>\<open>[fullName, email, username, password].some((field) => field?.trim() === "")\<close>\<close>

definition some_field_blank :: "(string \<Rightarrow> string) \<Rightarrow> string option list \<Rightarrow> bool" where
  "some_field_blank tr fs = list_ex (\<lambda>field. map_option tr field = Some []) fs"

text \<open>From \<open>User.create\<close> to the response.\<close>

definition register_create ::
  "env \<Rightarrow> user list \<Rightarrow> (string \<times> string option) list \<Rightarrow> (jsobj + response) \<times> user list" where
  "register_create e db doc =
     (case User_create e db doc of
        Inl error \<Rightarrow> (Inl error, db)
      | Inr u \<Rightarrow>
          (let db' = db @ [u];
               createdUser = map_option select_profile (findById db' (Some (Str (user_id u))))
           in case createdUser of
                None \<Rightarrow> (Inl (ApiError (Num 500) (Str ''USER NOT CREATED'')), db')
              | Some c \<Rightarrow>
                  (Inr \<lparr>res_status = 200, res_cookies = [], res_cleared = [],
                        res_json = new_ApiResponse 200 (DUser (Some c)) ''USER CREATED''\<rparr>, db')))"

text \<open>
  From the file paths to the response, once no user was found to exist. What
  \<open>uploadOnCloudinary\<close> returns is an object, so the \<open>!avatar\<close> test never throws;
  \<open>username.toLowerCase()\<close> throws on an absent username.
\<close>

definition register_upload ::
  "env \<Rightarrow> user list \<Rightarrow> request \<Rightarrow> (jsobj + response) \<times> user list" where
  "register_upload e db req =
     (let fullName_f = map_of (body req) ''fullName'';
          email_f = map_of (body req) ''email'';
          username_f = map_of (body req) ''username'';
          password_f = map_of (body req) ''password''
      in case avatarLocalPath req of
           Inl error \<Rightarrow> (Inl error, db)
         | Inr avatarPath \<Rightarrow>
             (case coverImageLocalPath req of
                Inl error \<Rightarrow> (Inl error, db)
              | Inr coverPath \<Rightarrow>
                  if \<not> truthy_s avatarPath
                  then (Inl (ApiError (Num 400) (Str ''AVATAR LOCAL PATH IS REQUIRED'')), db)
                  else (case uploadOnCloudinary e avatarPath of
                          Inl error \<Rightarrow> (Inl error, db)
                        | Inr avatar_r \<Rightarrow>
                            (case uploadOnCloudinary e coverPath of
                               Inl error \<Rightarrow> (Inl error, db)
                             | Inr coverImage_r \<Rightarrow>
                                 (case username_f of
                                    None \<Rightarrow> (Inl TypeError, db)
                                  | Some uname \<Rightarrow>
                                      register_create e db
                                        [(''fullName'', fullName_f),
                                         (''email'', email_f),
                                         (''username'', Some (toLowerCase e uname)),
                                         (''password'', password_f),
                                         (''avatar'', url avatar_r),
                                         (''coverImage'', or_s (url coverImage_r) (Some []))])))))"

definition registerUser :: "env \<Rightarrow> user list \<Rightarrow> request \<Rightarrow> (jsobj + response) \<times> user list" where
  "registerUser e db req =
     (let fullName_f = map_of (body req) ''fullName'';
          email_f = map_of (body req) ''email'';
          username_f = map_of (body req) ''username'';
          password_f = map_of (body req) ''password''
      in if some_field_blank (trim e) [fullName_f, email_f, username_f, password_f]
         then (Inl (ApiError (Num 400) (Str ''ALL FIELDS ARE REQUIRED'')), db)
         else (case findOne_or (toLowerCase e) db username_f email_f of
                 Some existedUser \<Rightarrow> (Inl (ApiError (Num 409) (Str ''USER ALREADY EXISTS'')), db)
               | None \<Rightarrow> register_upload e db req))"

section \<open>What a request presents and what the store holds\<close>

text \<open>
  The id claim of the refresh token a request presents, when the token is present and
  verifies: the principal the refresh handler goes on to load.
\<close>

definition refresh_principal :: "env \<Rightarrow> request \<Rightarrow> jsval option" where
  "refresh_principal e req =
     (case or_s (map_of (cookies req) ''refreshToken'') (map_of (body req) ''refreshToken'') of
        None \<Rightarrow> None
      | Some t \<Rightarrow>
          if t = [] then None
          else (case jwt_verify e t (REFRESH_TOKEN_SECRET e) of
                  Returns (Some decodedToken) \<Rightarrow> get_prop decodedToken ''_id''
                | _ \<Rightarrow> None))"

text \<open>The principal a login request names: what the handler's lookup finds.\<close>

definition login_principal :: "env \<Rightarrow> user list \<Rightarrow> request \<Rightarrow> user option" where
  "login_principal e db req =
     findOne_or (toLowerCase e) db (map_of (body req) ''username'') (map_of (body req) ''email'')"

text \<open>The refresh value stored for a principal, when the principal exists.\<close>

definition stored_refreshToken :: "user list \<Rightarrow> string \<Rightarrow> string option option" where
  "stored_refreshToken db i = map_option refreshToken (findById db (Some (Str i)))"

section \<open>An example configuration\<close>

text \<open>
  A token library that accepts the refresh tokens \<open>R0\<close> and \<open>R1\<close> and the access token
  \<open>A1\<close> for the principal \<open>u1\<close>, a user model that issues \<open>A2\<close> and \<open>R2\<close>, and a
  store holding one principal whose current refresh token is \<open>R1\<close>.
\<close>

text \<open>
  The example requests and records hold ASCII text only. On ASCII text the runtime's
  \<open>trim\<close> strips exactly the six blanks below at both ends and its \<open>toLowerCase\<close>
  folds exactly the letters A to Z; the example runtime does that.
\<close>

definition ascii_blank :: "char \<Rightarrow> bool" where
  "ascii_blank c = (c \<in> set [CHR '' '', CHR 0x09, CHR 0x0A, CHR 0x0B, CHR 0x0C, CHR 0x0D])"

definition ascii_trim :: "string \<Rightarrow> string" where
  "ascii_trim s = rev (dropWhile ascii_blank (rev (dropWhile ascii_blank s)))"

definition ascii_lower :: "char \<Rightarrow> char" where
  "ascii_lower c =
     (case map_of (zip ''ABCDEFGHIJKLMNOPQRSTUVWXYZ'' ''abcdefghijklmnopqrstuvwxyz'') c of
        None \<Rightarrow> c | Some l \<Rightarrow> l)"

definition ascii_toLowerCase :: "string \<Rightarrow> string" where
  "ascii_toLowerCase s = map ascii_lower s"

definition doc_field :: "(string \<times> string option) list \<Rightarrow> string \<Rightarrow> string option" where
  "doc_field doc k = (case map_of doc k of Some (Some s) \<Rightarrow> Some s | _ \<Rightarrow> None)"

definition create0 :: "user list \<Rightarrow> (string \<times> string option) list \<Rightarrow> jsobj + user" where
  "create0 db doc =
     (case (doc_field doc ''fullName'', doc_field doc ''email'', doc_field doc ''username'',
            doc_field doc ''password'', doc_field doc ''avatar'') of
        (Some f, Some m, Some h, Some pw, Some a) \<Rightarrow>
          Inr \<lparr>user_id = ''u2'', username = h, email = m, fullName = f, avatar = a,
               coverImage = (case doc_field doc ''coverImage'' of None \<Rightarrow> [] | Some c \<Rightarrow> c),
               password = ''hashed:'' @ pw, refreshToken = None\<rparr>
      | _ \<Rightarrow> Inl (LibError ''ValidationError'' ''User validation failed''))"

definition env0 :: env where
  "env0 =
     \<lparr>jwt_verify = (\<lambda>t k.
        if k = ''refresh-key'' \<and> (t = ''R0'' \<or> t = ''R1'')
        then Returns (Some [(''_id'', Str ''u1'')])
        else if k = ''access-key'' \<and> t = ''A1''
        then Returns (Some [(''_id'', Str ''u1'')])
        else Throws ''JsonWebTokenError'' ''invalid signature''),
      ACCESS_TOKEN_SECRET = ''access-key'',
      REFRESH_TOKEN_SECRET = ''refresh-key'',
      generateAccessToken = (\<lambda>u. ''A2''),
      generateRefreshToken = (\<lambda>u. ''R2''),
      isPasswordCorrect = (\<lambda>u pw. map_option (\<lambda>s. ''hashed:'' @ s) pw = Some (password u)),
      presave_password = (\<lambda>pw. case pw of
          None \<Rightarrow> Inl (LibError ''ValidationError'' ''User validation failed'')
        | Some s \<Rightarrow> if s = [] then Inl (LibError ''ValidationError'' ''User validation failed'')
                    else Inr (''hashed:'' @ s)),
      cloudinary_upload = (\<lambda>path. UploadResponse (Some (''https://media.example/'' @ path))),
      User_create = create0,
      trim = ascii_trim,
      toLowerCase = ascii_toLowerCase\<rparr>"

definition alice :: user where
  "alice =
     \<lparr>user_id = ''u1'', username = ''alice'', email = ''alice@example.com'',
      fullName = ''Alice'', avatar = ''https://media.example/a.png'', coverImage = [],
      password = ''hashed:secret'', refreshToken = Some ''R1''\<rparr>"

definition request0 :: request where
  "request0 = \<lparr>cookies = [], headers = [], body = [], files = None, req_user = None\<rparr>"

definition env1 :: env where
  "env1 = env0\<lparr>generateAccessToken := (\<lambda>u. ''A3''), generateRefreshToken := (\<lambda>u. ''R3'')\<rparr>"

definition login_request :: "string \<Rightarrow> string \<Rightarrow> request" where
  "login_request h pw = request0\<lparr>body := [(''username'', h), (''password'', pw)]\<rparr>"

definition login_response :: "string \<Rightarrow> string \<Rightarrow> response" where
  "login_response a r =
     \<lparr>res_status = 200,
      res_cookies = [(''accessToken'', Some a), (''refreshToken'', Some r)],
      res_cleared = [],
      res_json = new_ApiResponse 200
        (DObj [(''user'', VUser (Some (select_profile alice))),
               (''accessToken'', VStr (Some a)),
               (''refreshToken'', VStr (Some r))])
        ''USER LOGGED IN SUCCESSFULLY''\<rparr>"

definition refresh_request :: "string \<Rightarrow> request" where
  "refresh_request t = request0\<lparr>cookies := [(''refreshToken'', t)]\<rparr>"

definition authenticated :: "user \<Rightarrow> request \<Rightarrow> request" where
  "authenticated u req = req\<lparr>req_user := Some (select_profile u)\<rparr>"

definition register_request :: "(string \<times> string) list \<Rightarrow> request" where
  "register_request b = request0\<lparr>body := b, files := Some [(''avatar'', [''/tmp/a.png''])]\<rparr>"

section \<open>The store and the token issuer\<close>

lemma find_save_same:
  "find (\<lambda>v. user_id v = i) db = Some u \<Longrightarrow> user_id u' = i \<Longrightarrow>
   find (\<lambda>v. user_id v = i) (save db u') = Some u'"
  by (induction db) (auto split: if_splits)

lemma find_save_other:
  "user_id u' \<noteq> i \<Longrightarrow> find (\<lambda>v. user_id v = i) (save db u') = find (\<lambda>v. user_id v = i) db"
  by (induction db) auto

lemma find_user_id: "find (\<lambda>v. user_id v = i) db = Some u \<Longrightarrow> user_id u = i"
  by (induction db) (auto split: if_splits)

lemma findById_user_id: "findById db (Some (Str i)) = Some u \<Longrightarrow> user_id u = i"
  using find_user_id [of i db u] by simp

lemma findById_save_same:
  "findById db (Some (Str i)) = Some u \<Longrightarrow> user_id u' = i \<Longrightarrow>
   findById (save db u') (Some (Str i)) = Some u'"
  by (simp add: find_save_same)

lemma map_save_frame:
  "find (\<lambda>v. user_id v = i) db = Some u \<Longrightarrow> user_id u' = i \<Longrightarrow> f u' = f u \<Longrightarrow>
   map f (save db u') = map f db"
  by (induction db) (auto split: if_splits)

lemma find_matching: "u \<in> set db \<Longrightarrow> P u \<Longrightarrow> \<exists>v. find P db = Some v"
  by (induction db) auto

lemma generate_ok:
  "findById db (Some (Str i)) = Some u \<Longrightarrow>
   generateAccessAndRefreshTokens e db (Some (Str i)) =
     (Inr [(''accessToken'', generateAccessToken e u),
           (''refreshToken'', generateRefreshToken e u)],
      save db (u\<lparr>refreshToken := Some (generateRefreshToken e u)\<rparr>))"
  by (simp add: generateAccessAndRefreshTokens_def generateAccessAndRefreshTokens_try_def Let_def)

lemma generate_fail:
  "findById db i = None \<Longrightarrow>
   generateAccessAndRefreshTokens e db i =
     (Inl (ApiError (Num 500)
        (Str ''SOMETHING WENT WRONG WHILE GENERATING ACCESS AND REFRESH TOKENS'')), db)"
  by (simp add: generateAccessAndRefreshTokens_def generateAccessAndRefreshTokens_try_def)

section \<open>Refresh\<close>

text \<open>Whatever a successful refresh returns, the refresh cookie it sets is \<open>undefined\<close>.\<close>

lemma refresh_success_shape:
  "refreshAccessToken e db req = (Inr res, db') \<Longrightarrow>
   map_of (res_cookies res) ''refreshToken'' = Some None"
  by (auto simp: refreshAccessToken_def refreshAccessToken_try_def Let_def
           generateAccessAndRefreshTokens_def generateAccessAndRefreshTokens_try_def
        split: option.splits if_splits verify_result.splits sum.splits prod.splits)

text \<open>
  C1. The claim: a successful refresh mints a new pair, persists the new refresh value
  and returns both new credentials in the cookies and in the body, the new refresh token
  being defined and different from the old one. The handler destructures
  \<open>newRefreshToken\<close> from an object whose properties are \<open>accessToken\<close> and
  \<open>refreshToken\<close>: for the principal \<open>u1\<close> presenting its current token \<open>R1\<close>, the
  store receives \<open>R2\<close>, and both the refresh cookie and the body's \<open>refreshToken\<close> are
  \<open>undefined\<close>.
\<close>

theorem refresh_returns_undefined_refresh_token:
  "refreshAccessToken env0 [alice] (refresh_request ''R1'') =
     (Inr \<lparr>res_status = 200,
           res_cookies = [(''accessToken'', Some ''A2''), (''refreshToken'', None)],
           res_cleared = [],
           res_json = \<lparr>statusCode = 200,
                       data = DObj [(''accessToken'', VStr (Some ''A2'')),
                                    (''refreshToken'', VStr None)],
                       message = ''Access token successfully refreshed.'',
                       success = True\<rparr>\<rparr>,
      [alice\<lparr>refreshToken := Some ''R2''\<rparr>])"
  by (simp add: refreshAccessToken_def refreshAccessToken_try_def Let_def or_s_def
        generateAccessAndRefreshTokens_def generateAccessAndRefreshTokens_try_def
        env0_def alice_def request0_def refresh_request_def get_prop_def new_ApiResponse_def)

text \<open>Every rejection that leaves the refresh handler carries the status code 401.\<close>

lemma refresh_rejects_with_401:
  "refreshAccessToken e db req = (Inl err, db') \<Longrightarrow>
   get_prop err ''statusCode'' = Some (Num 401)"
  by (auto simp: refreshAccessToken_def Let_def ApiError_def get_prop_def
        split: option.splits if_splits prod.splits sum.splits)

text \<open>
  C2. The claim: each failure of a refresh has its own rejection, 401 for a missing and
  for an invalid token, 404 for a principal that is not found, 403 for a token that is
  not the stored one. The handler throws the 404 and the 403 inside its \<open>try\<close>, and its
  \<open>catch\<close> replaces whatever was thrown there by one 401: a validly signed token that is
  not the stored one (\<open>R0\<close>), a token whose principal is gone and a token with a bad
  signature all leave the handler as the same rejection.
\<close>

theorem refresh_failures_collapse_to_401:
  "refreshAccessToken_try env0 [alice] ''R0'' =
     (Inl (ApiError (Num 403) (Str ''Refresh token mismatch. Please log in again.'')), [alice])
   \<and> refreshAccessToken env0 [alice] (refresh_request ''R0'') =
     (Inl (ApiError (Num 401) (Str ''Token refresh failed. Please try logging in again.'')),
      [alice])
   \<and> refreshAccessToken_try env0 [] ''R1'' =
     (Inl (ApiError (Num 404) (Str ''User not found. Please log in again.'')), [])
   \<and> refreshAccessToken env0 [] (refresh_request ''R1'') =
     (Inl (ApiError (Num 401) (Str ''Token refresh failed. Please try logging in again.'')), [])
   \<and> refreshAccessToken env0 [alice] (refresh_request ''forged'') =
     (Inl (ApiError (Num 401) (Str ''Token refresh failed. Please try logging in again.'')),
      [alice])"
  by (simp add: refreshAccessToken_def refreshAccessToken_try_def Let_def or_s_def
        env0_def alice_def request0_def refresh_request_def get_prop_def)

section \<open>Logout\<close>

lemma logout_store:
  assumes "req_user req = Some p" and "findById db (Some (Str (p_id p))) = Some u"
  shows "logOutUser e db req =
           (Inr \<lparr>res_status = 200, res_cookies = [],
                 res_cleared = [''accessToken'', ''refreshToken''],
                 res_json = new_ApiResponse 200 DNull ''USER LOGGED OUT SUCCESSFULLY''\<rparr>,
            save db (u\<lparr>refreshToken := Some []\<rparr>))"
  using assms by (simp add: logOutUser_def findByIdAndUpdate_def)

lemma refresh_rejected_when_store_empty:
  assumes "refresh_principal e req = Some (Str i)"
      and "findById db (Some (Str i)) = Some u"
      and "refreshToken u = Some []"
  shows "refreshAccessToken e db req =
           (Inl (ApiError (Num 401) (Str ''Token refresh failed. Please try logging in again.'')), db)"
  using assms
  by (auto simp: refresh_principal_def refreshAccessToken_def refreshAccessToken_try_def Let_def
        split: option.splits if_splits verify_result.splits)

text \<open>
  C3, as the spec states it: after a logout the stored refresh value of the principal is
  null. At the store holding \<open>u1\<close>, the logout of \<open>u1\<close> leaves the empty string there.
\<close>

theorem logout_stores_empty_string_not_null:
  "stored_refreshToken (snd (logOutUser env0 [alice] (authenticated alice request0))) ''u1''
     = Some (Some [])
   \<and> stored_refreshToken (snd (logOutUser env0 [alice] (authenticated alice request0))) ''u1''
     \<noteq> Some None"
  by (simp add: logOutUser_def findByIdAndUpdate_def stored_refreshToken_def alice_def
        request0_def select_profile_def authenticated_def)

text \<open>
  C3, amended: after a successful logout of an existing principal the stored refresh
  value of that principal is the empty string, and a refresh request presenting a
  refresh token that verifies and names that principal, whatever the token and whatever
  its remaining lifetime, is rejected: no credentials are issued and the store stays as
  the logout left it.
\<close>

theorem logout_invalidates_refresh_tokens:
  assumes "req_user req = Some p"
      and "findById db (Some (Str (p_id p))) = Some u"
      and "logOutUser e db req = (r, db')"
      and "refresh_principal e' req' = Some (Str (p_id p))"
  shows "(\<exists>res. r = Inr res)
         \<and> stored_refreshToken db' (p_id p) = Some (Some [])
         \<and> (\<exists>err. refreshAccessToken e' db' req' = (Inl err, db'))"
proof -
  let ?u' = "u\<lparr>refreshToken := Some []\<rparr>"
  from logout_store [OF assms(1,2), of e] assms(3)
  have r: "\<exists>res. r = Inr res" and db': "db' = save db ?u'" by auto
  have "user_id ?u' = p_id p" using findById_user_id [OF assms(2)] by simp
  then have f: "findById db' (Some (Str (p_id p))) = Some ?u'"
    using findById_save_same [OF assms(2)] db' by simp
  then have s: "stored_refreshToken db' (p_id p) = Some (Some [])"
    by (simp add: stored_refreshToken_def)
  have "refreshToken ?u' = Some []" by simp
  from refresh_rejected_when_store_empty [OF assms(4) f this] r s
  show ?thesis by blast
qed

theorem logout_invalidates_refresh_tokens_witness:
  "req_user (authenticated alice request0) = Some (select_profile alice)
   \<and> findById [alice] (Some (Str (p_id (select_profile alice)))) = Some alice
   \<and> logOutUser env0 [alice] (authenticated alice request0) =
       (Inr \<lparr>res_status = 200, res_cookies = [],
             res_cleared = [''accessToken'', ''refreshToken''],
             res_json = new_ApiResponse 200 DNull ''USER LOGGED OUT SUCCESSFULLY''\<rparr>,
        [alice\<lparr>refreshToken := Some []\<rparr>])
   \<and> refresh_principal env0 (refresh_request ''R1'') = Some (Str (p_id (select_profile alice)))
   \<and> stored_refreshToken [alice\<lparr>refreshToken := Some []\<rparr>] ''u1'' = Some (Some [])
   \<and> refreshAccessToken env0 [alice\<lparr>refreshToken := Some []\<rparr>] (refresh_request ''R1'')
       = (Inl (ApiError (Num 401) (Str ''Token refresh failed. Please try logging in again.'')),
          [alice\<lparr>refreshToken := Some []\<rparr>])"
proof -
  have h1: "req_user (authenticated alice request0) = Some (select_profile alice)"
    by (simp add: authenticated_def)
  have h2: "findById [alice] (Some (Str (p_id (select_profile alice)))) = Some alice"
    by (simp add: select_profile_def)
  have h3: "logOutUser env0 [alice] (authenticated alice request0) =
       (Inr \<lparr>res_status = 200, res_cookies = [],
             res_cleared = [''accessToken'', ''refreshToken''],
             res_json = new_ApiResponse 200 DNull ''USER LOGGED OUT SUCCESSFULLY''\<rparr>,
        [alice\<lparr>refreshToken := Some []\<rparr>])"
    by (simp add: logOutUser_def findByIdAndUpdate_def authenticated_def select_profile_def)
  have h4: "refresh_principal env0 (refresh_request ''R1'')
              = Some (Str (p_id (select_profile alice)))"
    by (simp add: refresh_principal_def refresh_request_def request0_def or_s_def env0_def
          get_prop_def select_profile_def alice_def)
  have p: "p_id (select_profile alice) = ''u1''"
    by (simp add: select_profile_def alice_def)
  have q: "refreshAccessToken env0 [alice\<lparr>refreshToken := Some []\<rparr>] (refresh_request ''R1'')
       = (Inl (ApiError (Num 401) (Str ''Token refresh failed. Please try logging in again.'')),
          [alice\<lparr>refreshToken := Some []\<rparr>])"
    by (simp add: refreshAccessToken_def refreshAccessToken_try_def Let_def or_s_def
          refresh_request_def request0_def env0_def get_prop_def alice_def)
  from logout_invalidates_refresh_tokens [OF h1 h2 h3 h4] h1 h2 h3 h4 p q
  show ?thesis by simp
qed

section \<open>The access-verification gate\<close>

text \<open>Every rejection that leaves the gate carries the status code 500.\<close>

lemma VerifyJWT_rejects_with_500:
  "VerifyJWT e db req = Inl err \<Longrightarrow> get_prop err ''statusCode'' = Some (Num 500)"
  by (auto simp: VerifyJWT_def VerifyJWT_try_def Let_def ApiError_def LibError_def get_prop_def
        or_default_def split: sum.splits option.splits if_splits verify_result.splits)

text \<open>
  C4. The claim: every failure of the gate (no credential, a bad access token, a
  principal that no longer exists) is a rejection in the 401/404 class, never a 500.
  The gate throws 401 and 404 inside its \<open>try\<close>, but its \<open>catch\<close> reads the \<open>status\<close>
  property of what was thrown, which an \<open>ApiError\<close> (it has \<open>statusCode\<close>) and the
  token library's errors do not have: each of the three failures leaves the gate with
  status code 500.
\<close>

theorem VerifyJWT_failures_surface_as_500:
  "VerifyJWT env0 [alice] request0 = Inl (ApiError (Num 500) (Str ''UNAUTHORIZED''))
   \<and> VerifyJWT env0 [alice] (request0\<lparr>headers := [(''Authorization'', ''Bearer bad'')]\<rparr>)
       = Inl (ApiError (Num 500) (Str ''invalid signature''))
   \<and> VerifyJWT env0 [] (request0\<lparr>cookies := [(''accessToken'', ''A1'')]\<rparr>)
       = Inl (ApiError (Num 500) (Str ''INVALID ACCESS TOKEN''))"
  by (simp add: VerifyJWT_def VerifyJWT_try_def Let_def ApiError_def LibError_def get_prop_def
        or_default_def or_s_def env0_def alice_def request0_def opt_prop_def)

section \<open>Login\<close>

lemma login_success:
  assumes "loginUser e db req = (Inr res, db')"
  shows "\<exists>u u0. login_principal e db req = Some u
           \<and> findById db (Some (Str (user_id u))) = Some u0
           \<and> db' = save db (u0\<lparr>refreshToken := Some (generateRefreshToken e u0)\<rparr>)
           \<and> res_cookies res = [(''accessToken'', Some (generateAccessToken e u0)),
                                 (''refreshToken'', Some (generateRefreshToken e u0))]"
proof -
  from assms obtain u where u: "login_principal e db req = Some u"
    by (cases "login_principal e db req")
       (auto simp: loginUser_def login_principal_def Let_def split: if_splits)
  show ?thesis
  proof (cases "findById db (Some (Str (user_id u)))")
    case None
    with assms u show ?thesis
      by (simp add: loginUser_def login_principal_def Let_def generate_fail split: if_splits)
  next
    case (Some u0)
    with assms u show ?thesis
      by (auto simp: loginUser_def login_principal_def Let_def generate_ok split: if_splits)
  qed
qed

lemma login_stores_token:
  assumes "loginUser e db req = (Inr res, db')"
      and "map_option user_id (login_principal e db req) = Some i"
  shows "\<exists>r. map_of (res_cookies res) ''refreshToken'' = Some (Some r)
            \<and> stored_refreshToken db' i = Some (Some r)"
proof -
  from login_success [OF assms(1)] obtain u u0 where
    u: "login_principal e db req = Some u" and
    u0: "findById db (Some (Str (user_id u))) = Some u0" and
    db': "db' = save db (u0\<lparr>refreshToken := Some (generateRefreshToken e u0)\<rparr>)" and
    ck: "res_cookies res = [(''accessToken'', Some (generateAccessToken e u0)),
                            (''refreshToken'', Some (generateRefreshToken e u0))]"
    by blast
  from u assms(2) have i: "user_id u = i" by simp
  have "user_id u0 = i" using findById_user_id [OF u0] i by simp
  then have "findById db' (Some (Str i))
               = Some (u0\<lparr>refreshToken := Some (generateRefreshToken e u0)\<rparr>)"
    using findById_save_same [of db i u0 "u0\<lparr>refreshToken := Some (generateRefreshToken e u0)\<rparr>"]
      u0 i db' by simp
  then show ?thesis using ck by (simp add: stored_refreshToken_def)
qed

text \<open>
  C5. Two successful logins in sequence that name the same principal: each returns a
  refresh token in its cookie, the store holds the first token after the first login and
  the second token after the second, and a first token that differs from the second is
  no longer the stored one.
\<close>

theorem second_login_overwrites_refresh_token:
  assumes "loginUser e1 db req1 = (Inr res1, db1)"
      and "loginUser e2 db1 req2 = (Inr res2, db2)"
      and "map_option user_id (login_principal e1 db req1) = Some i"
      and "map_option user_id (login_principal e2 db1 req2) = Some i"
  shows "\<exists>r1 r2. map_of (res_cookies res1) ''refreshToken'' = Some (Some r1)
           \<and> map_of (res_cookies res2) ''refreshToken'' = Some (Some r2)
           \<and> stored_refreshToken db1 i = Some (Some r1)
           \<and> stored_refreshToken db2 i = Some (Some r2)
           \<and> (r1 \<noteq> r2 \<longrightarrow> stored_refreshToken db2 i \<noteq> Some (Some r1))"
  using login_stores_token [OF assms(1) assms(3)] login_stores_token [OF assms(2) assms(4)]
  by auto

theorem second_login_overwrites_refresh_token_witness:
  "loginUser env0 [alice] (login_request ''alice'' ''secret'')
     = (Inr (login_response ''A2'' ''R2''), [alice\<lparr>refreshToken := Some ''R2''\<rparr>])
   \<and> loginUser env1 [alice\<lparr>refreshToken := Some ''R2''\<rparr>] (login_request ''alice'' ''secret'')
     = (Inr (login_response ''A3'' ''R3''), [alice\<lparr>refreshToken := Some ''R3''\<rparr>])
   \<and> map_option user_id (login_principal env0 [alice] (login_request ''alice'' ''secret''))
     = Some ''u1''
   \<and> map_option user_id (login_principal env1 [alice\<lparr>refreshToken := Some ''R2''\<rparr>]
                            (login_request ''alice'' ''secret'')) = Some ''u1''
   \<and> stored_refreshToken [alice\<lparr>refreshToken := Some ''R2''\<rparr>] ''u1'' = Some (Some ''R2'')
   \<and> stored_refreshToken [alice\<lparr>refreshToken := Some ''R3''\<rparr>] ''u1'' = Some (Some ''R3'')
   \<and> stored_refreshToken [alice\<lparr>refreshToken := Some ''R3''\<rparr>] ''u1'' \<noteq> Some (Some ''R2'')"
proof -
  have l: "ascii_toLowerCase ''alice'' = ''alice''"
    by (simp add: ascii_toLowerCase_def ascii_lower_def)
  have h1: "loginUser env0 [alice] (login_request ''alice'' ''secret'')
     = (Inr (login_response ''A2'' ''R2''), [alice\<lparr>refreshToken := Some ''R2''\<rparr>])"
    by (simp add: loginUser_def Let_def login_request_def request0_def findOne_or_def
          matches_identity_def l generateAccessAndRefreshTokens_def
          generateAccessAndRefreshTokens_try_def login_response_def env0_def alice_def
          select_profile_def)
  have h2: "loginUser env1 [alice\<lparr>refreshToken := Some ''R2''\<rparr>]
              (login_request ''alice'' ''secret'')
     = (Inr (login_response ''A3'' ''R3''), [alice\<lparr>refreshToken := Some ''R3''\<rparr>])"
    by (simp add: loginUser_def Let_def login_request_def request0_def findOne_or_def
          matches_identity_def l generateAccessAndRefreshTokens_def
          generateAccessAndRefreshTokens_try_def login_response_def env1_def env0_def alice_def
          select_profile_def)
  have h3: "map_option user_id (login_principal env0 [alice] (login_request ''alice'' ''secret''))
     = Some ''u1''"
    by (simp add: login_principal_def login_request_def request0_def findOne_or_def
          matches_identity_def l alice_def env0_def)
  have h4: "map_option user_id (login_principal env1 [alice\<lparr>refreshToken := Some ''R2''\<rparr>]
                            (login_request ''alice'' ''secret'')) = Some ''u1''"
    by (simp add: login_principal_def login_request_def request0_def findOne_or_def
          matches_identity_def l alice_def env1_def env0_def)
  from second_login_overwrites_refresh_token [OF h1 h2 h3 h4] h1 h2 h3 h4
  show ?thesis by (simp add: stored_refreshToken_def alice_def)
qed

text \<open>
  C7. A login request with a handle, whose lookup finds a principal and whose secret
  does not verify against that principal, fails with 400 (incorrect password); the
  outcome is the error alone, so no token is issued, and the store is returned as it was.
\<close>

theorem login_wrong_secret_leaves_store:
  assumes "map_of (body req) ''username'' = Some h" and "h \<noteq> []"
      and "login_principal e db req = Some u"
      and "\<not> isPasswordCorrect e u (map_of (body req) ''password'')"
  shows "loginUser e db req = (Inl (ApiError (Num 400) (Str ''INCORRECT PASSWORD'')), db)"
  using assms by (simp add: loginUser_def login_principal_def Let_def)

theorem login_wrong_secret_leaves_store_witness:
  "map_of (body (login_request ''alice'' ''wrong'')) ''username'' = Some ''alice''
   \<and> ''alice'' \<noteq> []
   \<and> login_principal env0 [alice] (login_request ''alice'' ''wrong'') = Some alice
   \<and> \<not> isPasswordCorrect env0 alice (map_of (body (login_request ''alice'' ''wrong'')) ''password'')
   \<and> loginUser env0 [alice] (login_request ''alice'' ''wrong'')
       = (Inl (ApiError (Num 400) (Str ''INCORRECT PASSWORD'')), [alice])"
proof -
  have l: "ascii_toLowerCase ''alice'' = ''alice''"
    by (simp add: ascii_toLowerCase_def ascii_lower_def)
  have h1: "map_of (body (login_request ''alice'' ''wrong'')) ''username'' = Some ''alice''"
    by (simp add: login_request_def)
  have h2: "''alice'' \<noteq> []" by simp
  have h3: "login_principal env0 [alice] (login_request ''alice'' ''wrong'') = Some alice"
    by (simp add: login_principal_def login_request_def request0_def findOne_or_def
          matches_identity_def l alice_def env0_def)
  have h4: "\<not> isPasswordCorrect env0 alice
              (map_of (body (login_request ''alice'' ''wrong'')) ''password'')"
    by (simp add: login_request_def env0_def alice_def)
  from login_wrong_secret_leaves_store [OF h1 h2 h3 h4] h1 h2 h3 h4
  show ?thesis by simp
qed

text \<open>
  C8, as the spec states it: a login request without the secret fails with the
  validation error before any store lookup. A request that names the handle \<open>ghost\<close>
  and carries no secret is answered from the lookup: 404, user not found.
\<close>

theorem login_without_secret_reaches_lookup:
  "map_of (body (request0\<lparr>body := [(''username'', ''ghost'')]\<rparr>)) ''password'' = None
   \<and> loginUser env0 [alice] (request0\<lparr>body := [(''username'', ''ghost'')]\<rparr>)
       = (Inl (ApiError (Num 404) (Str ''USER NOT FOUND'')), [alice])
   \<and> loginUser env0 [alice] (request0\<lparr>body := [(''username'', ''ghost'')]\<rparr>)
       \<noteq> (Inl (ApiError (Num 400) (Str ''USERNAME OR EMAIL IS REQUIRED'')), [alice])"
  by (simp add: loginUser_def Let_def request0_def findOne_or_def matches_identity_def
        alice_def env0_def ascii_toLowerCase_def ascii_lower_def ApiError_def)

text \<open>
  C8, amended: login fails with the validation error (400, username or email is
  required) exactly when both identity fields are missing, each absent or empty, and
  then whatever the store holds; the secret takes no part in the validation.
\<close>

theorem login_validation_is_identity_only:
  "fst (loginUser e db req) = Inl (ApiError (Num 400) (Str ''USERNAME OR EMAIL IS REQUIRED''))
   \<longleftrightarrow> \<not> truthy_s (map_of (body req) ''username'') \<and> \<not> truthy_s (map_of (body req) ''email'')"
  by (auto simp: loginUser_def Let_def ApiError_def generateAccessAndRefreshTokens_def
        split: option.splits prod.splits sum.splits)

theorem login_validation_is_identity_only_witness:
  "fst (loginUser env0 [alice] (request0\<lparr>body := [(''password'', ''secret'')]\<rparr>))
     = Inl (ApiError (Num 400) (Str ''USERNAME OR EMAIL IS REQUIRED''))
   \<and> \<not> truthy_s (map_of (body (request0\<lparr>body := [(''password'', ''secret'')]\<rparr>)) ''username'')
   \<and> \<not> truthy_s (map_of (body (request0\<lparr>body := [(''password'', ''secret'')]\<rparr>)) ''email'')"
  using login_validation_is_identity_only
          [of env0 "[alice]" "request0\<lparr>body := [(''password'', ''secret'')]\<rparr>"]
  by simp

section \<open>Secret change\<close>

lemma change_password_success:
  assumes "changeCurrentpassword e db req = (Inr res, db')"
  shows "\<exists>p u hashed. req_user req = Some p
            \<and> findById db (Some (Str (p_id p))) = Some u
            \<and> isPasswordCorrect e u (map_of (body req) ''currentPassword'')
            \<and> presave_password e (map_of (body req) ''newPassword'') = Inr hashed
            \<and> db' = save db (u\<lparr>password := hashed\<rparr>)"
  using assms
  by (auto simp: changeCurrentpassword_def Let_def split: option.splits if_splits sum.splits)

text \<open>
  C6. A successful secret change leaves every stored refresh value as it was, for the
  principal and for everyone else, and changes no field of any record other than the
  secret: with the secrets blanked, the store after the change is the store before it.
\<close>

theorem secret_change_keeps_refresh_token:
  assumes "changeCurrentpassword e db req = (Inr res, db')"
  shows "map refreshToken db' = map refreshToken db
         \<and> map (\<lambda>u. u\<lparr>password := []\<rparr>) db' = map (\<lambda>u. u\<lparr>password := []\<rparr>) db
         \<and> stored_refreshToken db' i = stored_refreshToken db i"
proof -
  from change_password_success [OF assms] obtain p :: profile and u hashed where
    u: "findById db (Some (Str (p_id p))) = Some u" and
    db': "db' = save db (u\<lparr>password := hashed\<rparr>)"
    by blast
  from u have fu: "find (\<lambda>v. user_id v = p_id p) db = Some u" by simp
  have id: "user_id (u\<lparr>password := hashed\<rparr>) = p_id p" using findById_user_id [OF u] by simp
  have a: "map refreshToken db' = map refreshToken db"
    unfolding db' by (rule map_save_frame [OF fu id]) simp
  have b: "map (\<lambda>u. u\<lparr>password := []\<rparr>) db' = map (\<lambda>u. u\<lparr>password := []\<rparr>) db"
    unfolding db' by (rule map_save_frame [OF fu id]) simp
  have c: "stored_refreshToken db' i = stored_refreshToken db i"
  proof (cases "i = p_id p")
    case True
    then show ?thesis
      using findById_save_same [OF u id] u db' by (simp add: stored_refreshToken_def)
  next
    case False
    with id have "user_id (u\<lparr>password := hashed\<rparr>) \<noteq> i" by simp
    from find_save_other [OF this, of db] show ?thesis
      by (simp add: db' stored_refreshToken_def)
  qed
  from a b c show ?thesis by blast
qed

theorem secret_change_keeps_refresh_token_witness:
  "changeCurrentpassword env0 [alice]
     (authenticated alice
        (request0\<lparr>body := [(''currentPassword'', ''secret''), (''newPassword'', ''next'')]\<rparr>))
     = (Inr \<lparr>res_status = 200, res_cookies = [], res_cleared = [],
             res_json = new_ApiResponse 200 DNull ''PASSWORD CHANGED SUCCESSFULLY''\<rparr>,
        [alice\<lparr>password := ''hashed:next''\<rparr>])
   \<and> map refreshToken [alice\<lparr>password := ''hashed:next''\<rparr>] = [Some ''R1'']
   \<and> map refreshToken [alice] = [Some ''R1'']
   \<and> stored_refreshToken [alice\<lparr>password := ''hashed:next''\<rparr>] ''u1''
       = stored_refreshToken [alice] ''u1''"
proof -
  have h: "changeCurrentpassword env0 [alice]
     (authenticated alice
        (request0\<lparr>body := [(''currentPassword'', ''secret''), (''newPassword'', ''next'')]\<rparr>))
     = (Inr \<lparr>res_status = 200, res_cookies = [], res_cleared = [],
             res_json = new_ApiResponse 200 DNull ''PASSWORD CHANGED SUCCESSFULLY''\<rparr>,
        [alice\<lparr>password := ''hashed:next''\<rparr>])"
    by (simp add: changeCurrentpassword_def Let_def authenticated_def request0_def
          select_profile_def env0_def alice_def)
  from secret_change_keeps_refresh_token [OF h, of "''u1''"] h
  show ?thesis by (simp add: alice_def)
qed

section \<open>Registration\<close>

text \<open>
  C9, as the spec states it: every registration request whose handle differs only in
  letter case from a stored handle fails with 409. The presence check comes first: a
  request with the handle \<open>Alice\<close>, where \<open>alice\<close> is stored, and an empty password
  fails with 400 (all fields are required).
\<close>

theorem register_blank_field_precedes_handle_check:
  "map_of (body (register_request [(''fullName'', ''Al''), (''email'', ''al@example.com''),
                                   (''username'', ''Alice''), (''password'', [])])) ''username''
     = Some ''Alice''
   \<and> ''Alice'' \<noteq> username alice
   \<and> toLowerCase env0 (username alice) = toLowerCase env0 ''Alice''
   \<and> registerUser env0 [alice]
        (register_request [(''fullName'', ''Al''), (''email'', ''al@example.com''),
                           (''username'', ''Alice''), (''password'', [])])
       = (Inl (ApiError (Num 400) (Str ''ALL FIELDS ARE REQUIRED'')), [alice])
   \<and> registerUser env0 [alice]
        (register_request [(''fullName'', ''Al''), (''email'', ''al@example.com''),
                           (''username'', ''Alice''), (''password'', [])])
       \<noteq> (Inl (ApiError (Num 409) (Str ''USER ALREADY EXISTS'')), [alice])"
proof -
  have t: "ascii_trim [] = []" "ascii_trim ''Al'' \<noteq> []" "ascii_trim ''Alice'' \<noteq> []"
    "ascii_trim ''al@example.com'' \<noteq> []"
    by (simp_all add: ascii_trim_def ascii_blank_def)
  have l: "ascii_toLowerCase ''Alice'' = ''alice''" "ascii_toLowerCase ''alice'' = ''alice''"
    by (simp_all add: ascii_toLowerCase_def ascii_lower_def)
  show ?thesis
    by (simp add: registerUser_def some_field_blank_def Let_def register_request_def
          request0_def env0_def alice_def t l ApiError_def)
qed

text \<open>
  C9, amended: with the store comparing handles as the spec has it, a registration
  request whose handle is equal, under the runtime's \<open>toLowerCase\<close>, to the handle of a
  stored principal is rejected and the store is returned as it was, so no record is
  created: with 409 (user already exists) when the request passes the presence check,
  and with 400 (all fields are required) when one of its fields is present and trims to
  the empty string.
\<close>

theorem register_rejects_handle_differing_in_case:
  assumes "map_of (body req) ''username'' = Some h"
      and "u \<in> set db"
      and "toLowerCase e (username u) = toLowerCase e h"
  shows "registerUser e db req =
           (Inl (if some_field_blank (trim e)
                      [map_of (body req) ''fullName'', map_of (body req) ''email'',
                       map_of (body req) ''username'', map_of (body req) ''password'']
                 then ApiError (Num 400) (Str ''ALL FIELDS ARE REQUIRED'')
                 else ApiError (Num 409) (Str ''USER ALREADY EXISTS'')), db)"
proof -
  have "matches_identity (toLowerCase e) (Some h) (map_of (body req) ''email'') u"
    using assms(3) by (simp add: matches_identity_def)
  from find_matching
         [of u db "matches_identity (toLowerCase e) (Some h) (map_of (body req) ''email'')"]
    assms(2) this obtain v where
    "findOne_or (toLowerCase e) db (Some h) (map_of (body req) ''email'') = Some v"
    by (auto simp: findOne_or_def)
  with assms(1) show ?thesis by (simp add: registerUser_def Let_def)
qed

theorem register_rejects_handle_differing_in_case_witness:
  "map_of (body (register_request [(''fullName'', ''Al''), (''email'', ''al@example.com''),
                                   (''username'', ''Alice''), (''password'', ''pw'')])) ''username''
     = Some ''Alice''
   \<and> alice \<in> set [alice]
   \<and> toLowerCase env0 (username alice) = toLowerCase env0 ''Alice''
   \<and> ''Alice'' \<noteq> username alice
   \<and> \<not> some_field_blank (trim env0) [Some ''Al'', Some ''al@example.com'', Some ''Alice'', Some ''pw'']
   \<and> registerUser env0 [alice]
        (register_request [(''fullName'', ''Al''), (''email'', ''al@example.com''),
                           (''username'', ''Alice''), (''password'', ''pw'')])
       = (Inl (ApiError (Num 409) (Str ''USER ALREADY EXISTS'')), [alice])"
proof -
  let ?r = "register_request [(''fullName'', ''Al''), (''email'', ''al@example.com''),
                              (''username'', ''Alice''), (''password'', ''pw'')]"
  have t: "ascii_trim ''pw'' \<noteq> []" "ascii_trim ''Al'' \<noteq> []" "ascii_trim ''Alice'' \<noteq> []"
    "ascii_trim ''al@example.com'' \<noteq> []"
    by (simp_all add: ascii_trim_def ascii_blank_def)
  have b: "\<not> some_field_blank (trim env0)
               [Some ''Al'', Some ''al@example.com'', Some ''Alice'', Some ''pw'']"
    by (simp add: some_field_blank_def env0_def t)
  have f: "[map_of (body ?r) ''fullName'', map_of (body ?r) ''email'',
            map_of (body ?r) ''username'', map_of (body ?r) ''password'']
           = [Some ''Al'', Some ''al@example.com'', Some ''Alice'', Some ''pw'']"
    by (simp add: register_request_def request0_def)
  have h1: "map_of (body ?r) ''username'' = Some ''Alice''"
    by (simp add: register_request_def)
  have h2: "alice \<in> set [alice]" by simp
  have h3: "toLowerCase env0 (username alice) = toLowerCase env0 ''Alice''"
    by (simp add: env0_def ascii_toLowerCase_def ascii_lower_def alice_def)
  have h4: "''Alice'' \<noteq> username alice" by (simp add: alice_def)
  from register_rejects_handle_differing_in_case [OF h1 h2 h3] h1 h2 h3 h4 b
  show ?thesis unfolding f by simp
qed

text \<open>
  C10. The presence check of registration throws 400 (all fields are required) exactly
  when one of the four fields is present and trims to the empty string, whatever the
  runtime's \<open>trim\<close> strips; otherwise, in particular when a field is absent, the handler
  goes on to the uniqueness lookup and, when that finds nobody, to the upload and
  creation path.
\<close>

theorem register_presence_check:
  "(if (\<exists>s. map_of (body req) ''fullName'' = Some s \<and> trim e s = [])
       \<or> (\<exists>s. map_of (body req) ''email'' = Some s \<and> trim e s = [])
       \<or> (\<exists>s. map_of (body req) ''username'' = Some s \<and> trim e s = [])
       \<or> (\<exists>s. map_of (body req) ''password'' = Some s \<and> trim e s = [])
    then registerUser e db req = (Inl (ApiError (Num 400) (Str ''ALL FIELDS ARE REQUIRED'')), db)
    else registerUser e db req =
           (case findOne_or (toLowerCase e) db (map_of (body req) ''username'')
                   (map_of (body req) ''email'') of
              Some existedUser \<Rightarrow> (Inl (ApiError (Num 409) (Str ''USER ALREADY EXISTS'')), db)
            | None \<Rightarrow> register_upload e db req))"
  by (auto simp: registerUser_def some_field_blank_def Let_def)

theorem register_presence_check_witness:
  "registerUser env0 [alice]
     (register_request [(''email'', ''bob@example.com''), (''username'', ''Bob''),
                        (''password'', ''  '')])
     = (Inl (ApiError (Num 400) (Str ''ALL FIELDS ARE REQUIRED'')), [alice])
   \<and> map_of (body (register_request [(''email'', ''bob@example.com''), (''username'', ''Bob''),
                                      (''password'', ''pw'')])) ''fullName'' = None
   \<and> registerUser env0 [alice]
      (register_request [(''email'', ''bob@example.com''), (''username'', ''Bob''),
                         (''password'', ''pw'')])
     = register_upload env0 [alice]
         (register_request [(''email'', ''bob@example.com''), (''username'', ''Bob''),
                            (''password'', ''pw'')])
   \<and> register_upload env0 [alice]
         (register_request [(''email'', ''bob@example.com''), (''username'', ''Bob''),
                            (''password'', ''pw'')])
     = (Inl (LibError ''ValidationError'' ''User validation failed''), [alice])"
proof -
  have t [simp]: "trim env0 = ascii_trim" and lc [simp]: "toLowerCase env0 = ascii_toLowerCase"
    by (simp_all add: env0_def)
  have t1: "ascii_trim ''  '' = []" and t2: "ascii_trim ''pw'' \<noteq> []"
    and t3: "ascii_trim ''Bob'' \<noteq> []" and t4: "ascii_trim ''bob@example.com'' \<noteq> []"
    by (simp_all add: ascii_trim_def ascii_blank_def)
  have l: "ascii_toLowerCase ''Bob'' = ''bob''" "ascii_toLowerCase ''alice'' = ''alice''"
    by (simp_all add: ascii_toLowerCase_def ascii_lower_def)
  have a: "registerUser env0 [alice]
     (register_request [(''email'', ''bob@example.com''), (''username'', ''Bob''),
                        (''password'', ''  '')])
     = (Inl (ApiError (Num 400) (Str ''ALL FIELDS ARE REQUIRED'')), [alice])"
    using register_presence_check
            [of "register_request [(''email'', ''bob@example.com''), (''username'', ''Bob''),
                                   (''password'', ''  '')]" env0 "[alice]"]
    by (simp add: register_request_def request0_def t1)
  have b: "registerUser env0 [alice]
      (register_request [(''email'', ''bob@example.com''), (''username'', ''Bob''),
                         (''password'', ''pw'')])
     = register_upload env0 [alice]
         (register_request [(''email'', ''bob@example.com''), (''username'', ''Bob''),
                            (''password'', ''pw'')])"
    using register_presence_check
            [of "register_request [(''email'', ''bob@example.com''), (''username'', ''Bob''),
                                   (''password'', ''pw'')]" env0 "[alice]"]
    by (simp add: register_request_def request0_def t2 t3 t4 findOne_or_def
          matches_identity_def l alice_def)
  have c: "register_upload env0 [alice]
         (register_request [(''email'', ''bob@example.com''), (''username'', ''Bob''),
                            (''password'', ''pw'')])
     = (Inl (LibError ''ValidationError'' ''User validation failed''), [alice])"
    by (simp add: register_upload_def Let_def register_request_def request0_def
          avatarLocalPath_def coverImageLocalPath_def uploadOnCloudinary_def env0_def
          register_create_def create0_def doc_field_def or_s_def ApiError_def get_prop_def)
  from a b c show ?thesis by (simp add: register_request_def)
qed

end
